theory Spec2Isabelle
  imports Main "HOL-Library.Sublist"
begin

section \<open>The icon batch converter: res/tools/generate-md-icons.py\<close>

text \<open>
  The script reads one command-line argument, prints a line, runs \<open>mkdir -p\<close> twice and
  then, for every entry of two static catalogs, runs \<open>convert\<close> and \<open>mogrify\<close>. All it
  does to the outside is print and start processes, so the model is a function from the
  argument vector and the outside world to the list of events the script causes, together
  with the way the script ends (normally, or with the exception that stops it).
\<close>

subsection \<open>Exceptions, events and the outside world\<close>

datatype error =
    IndexError
  | KeyError string
  | ValueError
  | OSError "string list"
  | Unsupported

type_synonym command = "string list"

datatype event = Print string | Run command

text \<open>
  What \<open>subprocess.run(args)\<close> can meet. Either the program is started and exits with some
  status, or it cannot be started at all (it is not installed, or not executable), and then
  \<open>subprocess.run\<close> raises an \<open>OSError\<close> (\<open>FileNotFoundError\<close>, \<open>PermissionError\<close>). The
  script passes neither \<open>check=True\<close> nor a timeout, so a non-zero status raises nothing.
\<close>

datatype outcome = Exited int | NotLaunched

text \<open>
  The world decides the outcome of a command from everything that happened before it in
  this run; the tools themselves (ImageMagick, mkdir) are not modelled.
\<close>

type_synonym world = "event list \<Rightarrow> command \<Rightarrow> outcome"

record completed_process =
  args :: command
  returncode :: int

type_synonym 'a action = "event list \<Rightarrow> (error + 'a) \<times> event list"

definition and_then :: "'a action \<Rightarrow> ('a \<Rightarrow> 'b action) \<Rightarrow> 'b action" where
  "and_then m k tr = (case m tr of (Inl e, tr') \<Rightarrow> (Inl e, tr') | (Inr x, tr') \<Rightarrow> k x tr')"

definition finish :: "unit action" where
  "finish tr = (Inr (), tr)"

definition pure_step :: "error + 'a \<Rightarrow> 'a action" where
  "pure_step r tr = (r, tr)"

definition print_line :: "string \<Rightarrow> unit action" where
  "print_line s tr = (Inr (), tr @ [Print s])"

definition subprocess_run :: "world \<Rightarrow> command \<Rightarrow> completed_process action" where
  "subprocess_run w cmd tr =
     (case w tr cmd of
        NotLaunched \<Rightarrow> (Inl (OSError cmd), tr)
      | Exited rc \<Rightarrow> (Inr \<lparr>args = cmd, returncode = rc\<rparr>, tr @ [Run cmd]))"

text \<open>A \<open>for\<close> loop over a list: the body runs for each element in order, and an exception
  raised by the body leaves the loop.\<close>

fun for_each :: "('a \<Rightarrow> unit action) \<Rightarrow> 'a list \<Rightarrow> unit action" where
  "for_each body [] tr = (Inr (), tr)"
| "for_each body (x # xs) tr =
     (case body x tr of (Inl e, tr') \<Rightarrow> (Inl e, tr') | (Inr u, tr') \<Rightarrow> for_each body xs tr')"

subsection \<open>\<open>str.format\<close> with keyword arguments\<close>

text \<open>
  Every path of the script is built by \<open>template.format(key=value, ...)\<close>. The model reads
  the template from left to right as Python does: \<open>{{\<close> and \<open>}}\<close> are literal braces, a
  single \<open>}\<close> or an unclosed \<open>{\<close> is a \<open>ValueError\<close>, and \<open>{key}\<close> is replaced by the value of
  the keyword argument \<open>key\<close> (\<open>KeyError\<close> if there is none). An empty or numbered field
  asks for a positional argument, of which the script passes none (\<open>IndexError\<close>). A
  substituted value is never read again as a template. Fields with a conversion, a format
  specification, an attribute or an index occur in no template of the script and are left
  out of the model (\<open>Unsupported\<close>).
\<close>

definition emit :: "string \<Rightarrow> error + string \<Rightarrow> error + string" where
  "emit s r = (case r of Inl e \<Rightarrow> Inl e | Inr t \<Rightarrow> Inr (s @ t))"

definition field_value :: "(string \<times> string) list \<Rightarrow> string \<Rightarrow> error + string" where
  "field_value kw f =
     (if list_all (\<lambda>c. c \<in> set ''0123456789'') f then Inl IndexError
      else if list_ex (\<lambda>c. c \<in> set ''!:.[]'') f then Inl Unsupported
      else (case map_of kw f of None \<Rightarrow> Inl (KeyError f) | Some v \<Rightarrow> Inr v))"

fun fmt :: "(string \<times> string) list \<Rightarrow> string option \<Rightarrow> string \<Rightarrow> error + string" where
  "fmt kw None [] = Inr []"
| "fmt kw None [c] =
     (if c = CHR ''{'' \<or> c = CHR ''}'' then Inl ValueError else Inr [c])"
| "fmt kw None (c # d # cs) =
     (if c = CHR ''{'' then
        (if d = CHR ''{'' then emit [c] (fmt kw None cs) else fmt kw (Some []) (d # cs))
      else if c = CHR ''}'' then
        (if d = CHR ''}'' then emit [c] (fmt kw None cs) else Inl ValueError)
      else emit [c] (fmt kw None (d # cs)))"
| "fmt kw (Some f) [] = Inl ValueError"
| "fmt kw (Some f) (c # cs) =
     (if c = CHR ''}'' then
        (case field_value kw f of Inl e \<Rightarrow> Inl e | Inr v \<Rightarrow> emit v (fmt kw None cs))
      else if c = CHR ''{'' then Inl ValueError
      else fmt kw (Some (f @ [c])) cs)"

definition str_format :: "string \<Rightarrow> (string \<times> string) list \<Rightarrow> error + string" where
  "str_format template kw = fmt kw None template"

subsection \<open>The script\<close>

text \<open>The two catalogs. \<open>ICONS\<close> is a dict literal; \<open>ICONS.items()\<close> yields its entries in
  the order they are written, so it is kept as an association list.\<close>

definition ICONS :: "(string \<times> string list) list" where
  "ICONS = [(''av'', [''play_arrow'', ''pause'', ''stop'']),
            (''action'', [''drag_indicator''])]"

definition SYMBOLS :: "string list" where
  "SYMBOLS = [''drag_indicator'', ''file_open'', ''file_save'', ''new_window'',
              ''piano'', ''play_arrow'', ''stop'', ''view_timeline'']"

text \<open>\<open>sys.argv[1]\<close>: an \<open>IndexError\<close> when the list has no element 1.\<close>

definition argv_get :: "string list \<Rightarrow> nat \<Rightarrow> error + string" where
  "argv_get argv i = (if i < length argv then Inr (argv ! i) else Inl IndexError)"

text \<open>The body of the inner loop over the names of one group (lines 34 to 43).\<close>

definition convert_icon :: "world \<Rightarrow> string \<Rightarrow> string \<Rightarrow> string \<Rightarrow> unit action" where
  "convert_icon w md_dir grp name =
     and_then (pure_step (str_format ''res/images/md-icons/{name}.png'' [(''name'', name)]))
       (\<lambda>outfile.
     and_then (pure_step (str_format ''{md_dir}/src/{group}/{name}/materialicons/24px.svg''
                 [(''md_dir'', md_dir), (''group'', grp), (''name'', name)]))
       (\<lambda>src.
     and_then (subprocess_run w [''convert'', src, ''-density'', ''576'',
                 ''-background'', ''none'', ''-negate'', outfile])
       (\<lambda>r1.
     and_then (subprocess_run w [''mogrify'', ''-strip'', outfile])
       (\<lambda>r2. finish))))"

text \<open>The body of the loop over the symbols (lines 57 to 65).\<close>

definition convert_symbol :: "world \<Rightarrow> string \<Rightarrow> string \<Rightarrow> unit action" where
  "convert_symbol w md_dir symbol =
     and_then (pure_step (str_format ''res/images/md-symbols/{symbol}.png''
                 [(''symbol'', symbol)]))
       (\<lambda>outfile.
     and_then (pure_step (str_format
                 ''{md_dir}/symbols/web/{symbol}/materialsymbolssharp/{symbol}_wght100_24px.svg''
                 [(''md_dir'', md_dir), (''symbol'', symbol)]))
       (\<lambda>src.
     and_then (subprocess_run w [''convert'', src, ''-density'', ''576'',
                 ''-background'', ''none'', ''-negate'', outfile])
       (\<lambda>r1.
     and_then (subprocess_run w [''mogrify'', ''-strip'', outfile])
       (\<lambda>r2. finish))))"

text \<open>The two loops (lines 32 to 43 and 56 to 65).\<close>

definition icons_loop :: "world \<Rightarrow> string \<Rightarrow> unit action" where
  "icons_loop w md_dir =
     for_each (\<lambda>(grp, icons). for_each (convert_icon w md_dir grp) icons) ICONS"

definition symbols_loop :: "world \<Rightarrow> string \<Rightarrow> unit action" where
  "symbols_loop w md_dir = for_each (convert_symbol w md_dir) SYMBOLS"

text \<open>The two \<open>mkdir -p\<close> calls (lines 29 and 30).\<close>

definition make_output_dirs :: "world \<Rightarrow> unit action" where
  "make_output_dirs w =
     and_then (subprocess_run w [''mkdir'', ''-p'', ''res/images/md-icons''])
       (\<lambda>r1.
     and_then (subprocess_run w [''mkdir'', ''-p'', ''res/images/md-symbols''])
       (\<lambda>r2. finish))"

text \<open>The whole script, from the first statement to the last. The value of
  \<open>str(group)\<close> is \<open>group\<close> itself, the keys of \<open>ICONS\<close> being strings.\<close>

definition script :: "world \<Rightarrow> string list \<Rightarrow> unit action" where
  "script w argv =
     and_then (pure_step (argv_get argv 1))
       (\<lambda>md_dir.
     and_then (pure_step (str_format
                 ''Reading material design icons/symbols from base directory {md_dir}''
                 [(''md_dir'', md_dir)]))
       (\<lambda>line.
     and_then (print_line line)
       (\<lambda>u1.
     and_then (make_output_dirs w)
       (\<lambda>u2.
     and_then (icons_loop w md_dir)
       (\<lambda>u3. symbols_loop w md_dir)))))"

text \<open>A run of the script starts with no event yet.\<close>

definition main :: "world \<Rightarrow> string list \<Rightarrow> (error + unit) \<times> event list" where
  "main w argv = script w argv []"

subsection \<open>Reading a run\<close>

text \<open>The commands of a run in the order they were started, the program of a command,
  the first argument after the program (for \<open>convert\<close>, the file it reads) and the last
  argument (for \<open>convert\<close> and \<open>mogrify\<close>, the file written).\<close>

definition commands :: "event list \<Rightarrow> command list" where
  "commands tr = [c. Run c \<leftarrow> tr]"

fun program :: "command \<Rightarrow> string" where
  "program [] = []"
| "program (p # a) = p"

fun source_arg :: "command \<Rightarrow> string" where
  "source_arg (p # s # a) = s"
| "source_arg c = []"

definition target_arg :: "command \<Rightarrow> string" where
  "target_arg c = (if c = [] then [] else last c)"

definition calls_of :: "string \<Rightarrow> event list \<Rightarrow> command list" where
  "calls_of p tr = [c \<leftarrow> commands tr. program c = p]"

subsection \<open>Worlds\<close>

text \<open>A world in which every program can be started, whatever its exit status.\<close>

definition launches :: "world \<Rightarrow> bool" where
  "launches w = (\<forall>tr cmd. w tr cmd \<noteq> NotLaunched)"

text \<open>Every program starts and exits with the same status.\<close>

definition all_exit :: "int \<Rightarrow> world" where
  "all_exit rc tr cmd = Exited rc"

text \<open>ImageMagick's \<open>convert\<close> is not installed; everything else succeeds.\<close>

definition convert_missing :: world where
  "convert_missing tr cmd = (if program cmd = ''convert'' then NotLaunched else Exited 0)"

text \<open>The world as a second run finds it: whatever happened in the first run is past.\<close>

definition after :: "event list \<Rightarrow> world \<Rightarrow> world" where
  "after past w tr cmd = w (past @ tr) cmd"

subsection \<open>The script as a list of commands\<close>

text \<open>
  A pure view of the script, used in the proofs: the commands it would start if none failed
  to start, and the way a world cuts such a list short. That the script is this list run
  against the world is lemma \<open>script_plan\<close>.
\<close>

fun run_plan :: "world \<Rightarrow> command list \<Rightarrow> unit action" where
  "run_plan w [] tr = (Inr (), tr)"
| "run_plan w (c # cs) tr =
     (case w tr c of
        NotLaunched \<Rightarrow> (Inl (OSError c), tr)
      | Exited rc \<Rightarrow> run_plan w cs (tr @ [Run c]))"

definition icon_plan :: "string \<Rightarrow> string \<Rightarrow> string \<Rightarrow> command list" where
  "icon_plan md_dir grp name =
     [[''convert'', md_dir @ ''/src/'' @ grp @ ''/'' @ name @ ''/materialicons/24px.svg'',
       ''-density'', ''576'', ''-background'', ''none'', ''-negate'',
       ''res/images/md-icons/'' @ name @ ''.png''],
      [''mogrify'', ''-strip'', ''res/images/md-icons/'' @ name @ ''.png'']]"

definition symbol_plan :: "string \<Rightarrow> string \<Rightarrow> command list" where
  "symbol_plan md_dir symbol =
     [[''convert'', md_dir @ ''/symbols/web/'' @ symbol @ ''/materialsymbolssharp/'' @ symbol
         @ ''_wght100_24px.svg'',
       ''-density'', ''576'', ''-background'', ''none'', ''-negate'',
       ''res/images/md-symbols/'' @ symbol @ ''.png''],
      [''mogrify'', ''-strip'', ''res/images/md-symbols/'' @ symbol @ ''.png'']]"

definition plan :: "string \<Rightarrow> command list" where
  "plan md_dir =
     [[''mkdir'', ''-p'', ''res/images/md-icons''], [''mkdir'', ''-p'', ''res/images/md-symbols'']]
     @ concat (map (\<lambda>(grp, icons). concat (map (icon_plan md_dir grp) icons)) ICONS)
     @ concat (map (symbol_plan md_dir) SYMBOLS)"

definition banner :: "string \<Rightarrow> string" where
  "banner md_dir = ''Reading material design icons/symbols from base directory '' @ md_dir"


section \<open>The script runs its plan\<close>

subsection \<open>The templates\<close>

lemma emit_Inr: "emit s (Inr t) = Inr (s @ t)"
  by (simp add: emit_def)

lemma icon_outfile_format:
  "str_format ''res/images/md-icons/{name}.png'' [(''name'', name)]
     = Inr (''res/images/md-icons/'' @ name @ ''.png'')"
  by (simp add: str_format_def emit_Inr field_value_def)

lemma icon_source_format:
  "str_format ''{md_dir}/src/{group}/{name}/materialicons/24px.svg''
     [(''md_dir'', md_dir), (''group'', grp), (''name'', name)]
     = Inr (md_dir @ ''/src/'' @ grp @ ''/'' @ name @ ''/materialicons/24px.svg'')"
  by (simp add: str_format_def emit_Inr field_value_def)

lemma symbol_outfile_format:
  "str_format ''res/images/md-symbols/{symbol}.png'' [(''symbol'', symbol)]
     = Inr (''res/images/md-symbols/'' @ symbol @ ''.png'')"
  by (simp add: str_format_def emit_Inr field_value_def)

lemma symbol_source_format:
  "str_format ''{md_dir}/symbols/web/{symbol}/materialsymbolssharp/{symbol}_wght100_24px.svg''
     [(''md_dir'', md_dir), (''symbol'', symbol)]
     = Inr (md_dir @ ''/symbols/web/'' @ symbol @ ''/materialsymbolssharp/'' @ symbol
            @ ''_wght100_24px.svg'')"
  by (simp add: str_format_def emit_Inr field_value_def)

lemma banner_format:
  "str_format ''Reading material design icons/symbols from base directory {md_dir}''
     [(''md_dir'', md_dir)] = Inr (banner md_dir)"
  by (simp add: str_format_def emit_Inr field_value_def banner_def)

subsection \<open>Sequencing\<close>

lemma pure_then: "and_then (pure_step (Inr x)) k = k x"
  by (rule ext) (simp add: and_then_def pure_step_def)

lemma pure_raise: "and_then (pure_step (Inl e)) k tr = (Inl e, tr)"
  by (simp add: and_then_def pure_step_def)

lemma print_then: "and_then (print_line s) (\<lambda>u. k) tr = k (tr @ [Print s])"
  by (simp add: and_then_def print_line_def)

lemma run_then:
  "and_then (subprocess_run w c) (\<lambda>r. k) tr =
     (case w tr c of NotLaunched \<Rightarrow> (Inl (OSError c), tr) | Exited rc \<Rightarrow> k (tr @ [Run c]))"
  by (simp add: and_then_def subprocess_run_def split: outcome.split)

lemma run_plan_two:
  "run_plan w [c, d] tr =
     (case w tr c of NotLaunched \<Rightarrow> (Inl (OSError c), tr)
      | Exited rc \<Rightarrow> (case w (tr @ [Run c]) d of
            NotLaunched \<Rightarrow> (Inl (OSError d), tr @ [Run c])
          | Exited rc' \<Rightarrow> (Inr (), tr @ [Run c, Run d])))"
  by (simp split: outcome.split)

lemma run_plan_append:
  "run_plan w (cs @ ds) tr =
     (case run_plan w cs tr of (Inl e, tr') \<Rightarrow> (Inl e, tr') | (Inr u, tr') \<Rightarrow> run_plan w ds tr')"
  by (induction cs arbitrary: tr) (simp_all split: outcome.split)

lemma and_then_plans:
  "and_then (run_plan w cs) (\<lambda>u. run_plan w ds) = run_plan w (cs @ ds)"
  by (rule ext) (simp add: and_then_def run_plan_append)

lemma for_each_plan:
  "for_each (\<lambda>x. run_plan w (f x)) xs = run_plan w (concat (map f xs))"
proof (induction xs)
  case Nil
  show ?case by (rule ext) simp
next
  case (Cons x xs)
  show ?case
    by (rule ext) (simp add: Cons run_plan_append split: prod.split sum.split)
qed

subsection \<open>Each part of the script\<close>

lemma convert_icon_plan:
  "convert_icon w md_dir grp name = run_plan w (icon_plan md_dir grp name)"
  unfolding convert_icon_def icon_outfile_format icon_source_format pure_then icon_plan_def
  by (rule ext) (simp only: run_then run_plan_two, simp add: finish_def split: outcome.split)

lemma convert_symbol_plan:
  "convert_symbol w md_dir symbol = run_plan w (symbol_plan md_dir symbol)"
  unfolding convert_symbol_def symbol_outfile_format symbol_source_format pure_then
    symbol_plan_def
  by (rule ext) (simp only: run_then run_plan_two, simp add: finish_def split: outcome.split)

lemma make_output_dirs_plan:
  "make_output_dirs w =
     run_plan w [[''mkdir'', ''-p'', ''res/images/md-icons''],
                 [''mkdir'', ''-p'', ''res/images/md-symbols'']]"
  unfolding make_output_dirs_def
  by (rule ext) (simp only: run_then run_plan_two, simp add: finish_def split: outcome.split)

lemma icons_loop_plan:
  "icons_loop w md_dir =
     run_plan w (concat (map (\<lambda>(grp, icons). concat (map (icon_plan md_dir grp) icons)) ICONS))"
proof -
  have body: "(\<lambda>(grp, icons). for_each (convert_icon w md_dir grp) icons)
      = (\<lambda>entry. run_plan w (case entry of (grp, icons) \<Rightarrow>
           concat (map (icon_plan md_dir grp) icons)))"
  proof (rule ext)
    fix entry :: "string \<times> string list"
    obtain grp icons where e: "entry = (grp, icons)" by (cases entry)
    have "convert_icon w md_dir grp = (\<lambda>name. run_plan w (icon_plan md_dir grp name))"
      by (rule ext) (rule convert_icon_plan)
    then show "(case entry of (grp, icons) \<Rightarrow> for_each (convert_icon w md_dir grp) icons)
      = run_plan w (case entry of (grp, icons) \<Rightarrow> concat (map (icon_plan md_dir grp) icons))"
      by (simp add: e for_each_plan)
  qed
  show ?thesis unfolding icons_loop_def body by (rule for_each_plan)
qed

lemma symbols_loop_plan:
  "symbols_loop w md_dir = run_plan w (concat (map (symbol_plan md_dir) SYMBOLS))"
proof -
  have "convert_symbol w md_dir = (\<lambda>symbol. run_plan w (symbol_plan md_dir symbol))"
    by (rule ext) (rule convert_symbol_plan)
  then show ?thesis unfolding symbols_loop_def by (simp add: for_each_plan)
qed

lemma script_plan:
  "script w (prog # base # rest) tr = run_plan w (plan base) (tr @ [Print (banner base)])"
  unfolding script_def
  by (simp add: argv_get_def pure_then banner_format make_output_dirs_plan icons_loop_plan
      symbols_loop_plan and_then_plans print_then plan_def)

lemma script_no_argument: "length argv \<le> 1 \<Longrightarrow> script w argv tr = (Inl IndexError, tr)"
  unfolding script_def by (simp add: argv_get_def pure_raise)

subsection \<open>Running a plan\<close>

lemma run_plan_launches:
  "launches w \<Longrightarrow> run_plan w cs tr = (Inr (), tr @ map Run cs)"
proof (induction cs arbitrary: tr)
  case Nil
  show ?case by simp
next
  case (Cons c cs)
  from Cons.prems obtain rc where "w tr c = Exited rc"
    by (cases "w tr c") (auto simp: launches_def)
  with Cons show ?case by simp
qed

lemma run_plan_prefix:
  "\<exists>k \<le> length cs. snd (run_plan w cs tr) = tr @ map Run (take k cs)"
proof (induction cs arbitrary: tr)
  case Nil
  show ?case by simp
next
  case (Cons c cs)
  show ?case
  proof (cases "w tr c")
    case NotLaunched
    then have "snd (run_plan w (c # cs) tr) = tr @ map Run (take 0 (c # cs))" by simp
    then show ?thesis by blast
  next
    case (Exited rc)
    from Cons[of "tr @ [Run c]"] obtain k where
      k: "k \<le> length cs"
         "snd (run_plan w cs (tr @ [Run c])) = (tr @ [Run c]) @ map Run (take k cs)"
      by blast
    with Exited have "snd (run_plan w (c # cs) tr) = tr @ map Run (take (Suc k) (c # cs))"
      by simp
    moreover have "Suc k \<le> length (c # cs)" using k by simp
    ultimately show ?thesis by blast
  qed
qed

lemma commands_map_Run: "commands (Print s # map Run cs) = cs"
  by (induction cs) (simp_all add: commands_def)

lemma main_launches:
  "launches w \<Longrightarrow> main w (prog # base # rest) = (Inr (), Print (banner base) # map Run (plan base))"
  by (simp add: main_def script_plan run_plan_launches)

lemma commands_main_launches:
  "launches w \<Longrightarrow> commands (snd (main w (prog # base # rest))) = plan base"
  by (simp add: main_launches commands_map_Run)

lemma commands_main_prefix:
  "\<exists>k \<le> length (plan base). commands (snd (main w (prog # base # rest))) = take k (plan base)"
proof -
  obtain k where "k \<le> length (plan base)"
    and "snd (main w (prog # base # rest)) = [Print (banner base)] @ map Run (take k (plan base))"
    unfolding main_def script_plan using run_plan_prefix[of "plan base" w "[] @ [Print (banner base)]"]
    by auto
  then show ?thesis by (auto simp: commands_map_Run)
qed

lemma plan_unfolded:
  "plan base =
    [[''mkdir'', ''-p'', ''res/images/md-icons''],
     [''mkdir'', ''-p'', ''res/images/md-symbols'']]
    @ icon_plan base ''av'' ''play_arrow'' @ icon_plan base ''av'' ''pause''
    @ icon_plan base ''av'' ''stop'' @ icon_plan base ''action'' ''drag_indicator''
    @ symbol_plan base ''drag_indicator'' @ symbol_plan base ''file_open''
    @ symbol_plan base ''file_save'' @ symbol_plan base ''new_window''
    @ symbol_plan base ''piano'' @ symbol_plan base ''play_arrow''
    @ symbol_plan base ''stop'' @ symbol_plan base ''view_timeline''"
  by (simp add: plan_def ICONS_def SYMBOLS_def)


lemma launches_all_exit: "launches (all_exit rc)"
  by (simp add: launches_def all_exit_def)

lemma launches_after: "launches w \<Longrightarrow> launches (after past w)"
  by (simp add: launches_def after_def)

lemma plan_targets_distinct:
  "distinct (map target_arg [c \<leftarrow> plan base. program c = ''convert''])"
  unfolding plan_unfolded
  by (simp add: icon_plan_def symbol_plan_def target_arg_def)

lemma icon_plan_paths:
  assumes "c \<in> set (icon_plan base grp name)"
  shows "(c = [''convert'', source_arg c, ''-density'', ''576'', ''-background'', ''none'',
               ''-negate'', target_arg c] \<and> prefix base (source_arg c)
          \<or> c = [''mogrify'', ''-strip'', target_arg c])
       \<and> target_arg c = ''res/images/md-icons/'' @ name @ ''.png''"
  using assms by (auto simp: icon_plan_def target_arg_def)

lemma symbol_plan_paths:
  assumes "c \<in> set (symbol_plan base name)"
  shows "(c = [''convert'', source_arg c, ''-density'', ''576'', ''-background'', ''none'',
               ''-negate'', target_arg c] \<and> prefix base (source_arg c)
          \<or> c = [''mogrify'', ''-strip'', target_arg c])
       \<and> target_arg c = ''res/images/md-symbols/'' @ name @ ''.png''"
  using assms by (auto simp: symbol_plan_def target_arg_def)

lemma plan_cases:
  assumes "c \<in> set (plan base)"
  shows "c \<in> {[''mkdir'', ''-p'', ''res/images/md-icons''],
              [''mkdir'', ''-p'', ''res/images/md-symbols'']}
       \<or> (\<exists>grp name. name \<in> set (concat (map snd ICONS)) \<and> c \<in> set (icon_plan base grp name))
       \<or> (\<exists>name \<in> set SYMBOLS. c \<in> set (symbol_plan base name))"
proof -
  from assms consider
      (dirs) "c \<in> set [[''mkdir'', ''-p'', ''res/images/md-icons''],
                         [''mkdir'', ''-p'', ''res/images/md-symbols'']]"
    | (icons) "c \<in> set (concat (map (\<lambda>(grp, icons). concat (map (icon_plan base grp) icons))
                 ICONS))"
    | (symbols) "c \<in> set (concat (map (symbol_plan base) SYMBOLS))"
    unfolding plan_def by (simp only: set_append Un_iff) blast
  then show ?thesis
  proof cases
    case dirs
    then have "c \<in> {[''mkdir'', ''-p'', ''res/images/md-icons''],
              [''mkdir'', ''-p'', ''res/images/md-symbols'']}"
      by (simp only: list.set)
    then show ?thesis by (rule disjI1)
  next
    case icons
    then obtain entry where e: "entry \<in> set ICONS"
      and c: "c \<in> set (case entry of (grp, icons) \<Rightarrow> concat (map (icon_plan base grp) icons))"
      by (simp only: set_concat set_map) blast
    obtain grp names where entry: "entry = (grp, names)" by (cases entry)
    from c obtain name where n: "name \<in> set names" and cn: "c \<in> set (icon_plan base grp name)"
      unfolding entry prod.case by (simp only: set_concat set_map) blast
    from e n have "name \<in> set (concat (map snd ICONS))"
      unfolding entry by (simp only: set_concat set_map) force
    with cn have "\<exists>grp name. name \<in> set (concat (map snd ICONS))
        \<and> c \<in> set (icon_plan base grp name)"
      by blast
    then show ?thesis by blast
  next
    case symbols
    then have "\<exists>name \<in> set SYMBOLS. c \<in> set (symbol_plan base name)"
      by (simp only: set_concat set_map) blast
    then show ?thesis by blast
  qed
qed

section \<open>The properties of the specification\<close>

text \<open>
  In what follows \<open>argv\<close> is \<open>sys.argv\<close>: the name of the script, then the command-line
  arguments. The base directory is the first argument; arguments after it are never read.
\<close>

subsection \<open>Source paths of the icons\<close>

text \<open>
  Claim C1. For every pair (group, name) of the icon catalog, the source path passed to the
  rasterizer is exactly \<open><base>/src/<group>/<name>/materialicons/24px.svg\<close>, where
  \<open><base>\<close> is the command-line argument. When every tool starts, the source paths of the
  \<open>convert\<close> calls that write under \<open>res/images/md-icons/\<close>, in the order of the calls, are
  these paths for the pairs of the catalog in catalog order: one call for each pair and no
  other.
\<close>

theorem icon_source_paths:
  assumes "launches w" and "argv = prog # base # rest"
  shows "[source_arg c. c \<leftarrow> calls_of ''convert'' (snd (main w argv)),
            prefix ''res/images/md-icons/'' (target_arg c)]
         = [base @ ''/src/'' @ grp @ ''/'' @ name @ ''/materialicons/24px.svg''.
              (grp, icons) \<leftarrow> ICONS, name \<leftarrow> icons]"
  unfolding assms(2) calls_of_def commands_main_launches[OF assms(1)] plan_unfolded
  by (simp add: icon_plan_def symbol_plan_def target_arg_def ICONS_def)

theorem icon_source_paths_witness:
  "launches (all_exit 0)
   \<and> [source_arg c. c \<leftarrow> calls_of ''convert''
          (snd (main (all_exit 0) [''res/tools/generate-md-icons.py'', ''md''])),
        prefix ''res/images/md-icons/'' (target_arg c)]
     = [''md/src/av/play_arrow/materialicons/24px.svg'',
        ''md/src/av/pause/materialicons/24px.svg'',
        ''md/src/av/stop/materialicons/24px.svg'',
        ''md/src/action/drag_indicator/materialicons/24px.svg'']"
  using icon_source_paths [of "all_exit 0" "[''res/tools/generate-md-icons.py'', ''md'']"
      "''res/tools/generate-md-icons.py''" "''md''" "[]"]
  by (simp add: launches_all_exit ICONS_def)

subsection \<open>Source paths of the symbols\<close>

text \<open>
  Claim C2. For every name of the symbol catalog, the source path passed to the rasterizer
  is exactly \<open><base>/symbols/web/<name>/materialsymbolssharp/<name>_wght100_24px.svg\<close>.
  When every tool starts, the source paths of the \<open>convert\<close> calls that write under
  \<open>res/images/md-symbols/\<close> are these paths for the names of the catalog, in catalog order.
\<close>

theorem symbol_source_paths:
  assumes "launches w" and "argv = prog # base # rest"
  shows "[source_arg c. c \<leftarrow> calls_of ''convert'' (snd (main w argv)),
            prefix ''res/images/md-symbols/'' (target_arg c)]
         = [base @ ''/symbols/web/'' @ name @ ''/materialsymbolssharp/'' @ name
              @ ''_wght100_24px.svg''. name \<leftarrow> SYMBOLS]"
  unfolding assms(2) calls_of_def commands_main_launches[OF assms(1)] plan_unfolded
  by (simp add: icon_plan_def symbol_plan_def target_arg_def SYMBOLS_def)

theorem symbol_source_paths_witness:
  "launches (all_exit 0)
   \<and> [source_arg c. c \<leftarrow> calls_of ''convert''
          (snd (main (all_exit 0) [''res/tools/generate-md-icons.py'', ''/tmp/mdi''])),
        prefix ''res/images/md-symbols/'' (target_arg c)]
     = [''/tmp/mdi/symbols/web/drag_indicator/materialsymbolssharp/drag_indicator_wght100_24px.svg'',
        ''/tmp/mdi/symbols/web/file_open/materialsymbolssharp/file_open_wght100_24px.svg'',
        ''/tmp/mdi/symbols/web/file_save/materialsymbolssharp/file_save_wght100_24px.svg'',
        ''/tmp/mdi/symbols/web/new_window/materialsymbolssharp/new_window_wght100_24px.svg'',
        ''/tmp/mdi/symbols/web/piano/materialsymbolssharp/piano_wght100_24px.svg'',
        ''/tmp/mdi/symbols/web/play_arrow/materialsymbolssharp/play_arrow_wght100_24px.svg'',
        ''/tmp/mdi/symbols/web/stop/materialsymbolssharp/stop_wght100_24px.svg'',
        ''/tmp/mdi/symbols/web/view_timeline/materialsymbolssharp/view_timeline_wght100_24px.svg'']"
  using symbol_source_paths [of "all_exit 0" "[''res/tools/generate-md-icons.py'', ''/tmp/mdi'']"
      "''res/tools/generate-md-icons.py''" "''/tmp/mdi''" "[]"]
  by (simp add: launches_all_exit SYMBOLS_def)

subsection \<open>The parameters of the rasterizer\<close>

text \<open>
  Claim C3. For every catalog entry the rasterizer is called with exactly the fixed
  parameters: density 576, background none, negation, and the output path
  \<open>res/images/md-icons/<name>.png\<close> for an icon and \<open>res/images/md-symbols/<name>.png\<close> for
  a symbol. When every tool starts, what follows the source path in the \<open>convert\<close> calls of
  a run is exactly this, for the icons and then the symbols.
\<close>

theorem rasterizer_parameters:
  assumes "launches w" and "argv = prog # base # rest"
  shows "map (drop 2) (calls_of ''convert'' (snd (main w argv)))
         = [[''-density'', ''576'', ''-background'', ''none'', ''-negate'',
             ''res/images/md-icons/'' @ name @ ''.png'']. (grp, icons) \<leftarrow> ICONS, name \<leftarrow> icons]
           @ [[''-density'', ''576'', ''-background'', ''none'', ''-negate'',
               ''res/images/md-symbols/'' @ name @ ''.png'']. name \<leftarrow> SYMBOLS]"
  unfolding assms(2) calls_of_def commands_main_launches[OF assms(1)] plan_unfolded
  by (simp add: icon_plan_def symbol_plan_def ICONS_def SYMBOLS_def)

theorem rasterizer_parameters_witness:
  "launches (all_exit 1)
   \<and> take 5 (map (drop 2) (calls_of ''convert''
         (snd (main (all_exit 1) [''res/tools/generate-md-icons.py'', ''md'']))))
     = [[''-density'', ''576'', ''-background'', ''none'', ''-negate'',
         ''res/images/md-icons/play_arrow.png''],
        [''-density'', ''576'', ''-background'', ''none'', ''-negate'',
         ''res/images/md-icons/pause.png''],
        [''-density'', ''576'', ''-background'', ''none'', ''-negate'',
         ''res/images/md-icons/stop.png''],
        [''-density'', ''576'', ''-background'', ''none'', ''-negate'',
         ''res/images/md-icons/drag_indicator.png''],
        [''-density'', ''576'', ''-background'', ''none'', ''-negate'',
         ''res/images/md-symbols/drag_indicator.png'']]"
  using rasterizer_parameters [of "all_exit 1" "[''res/tools/generate-md-icons.py'', ''md'']"
      "''res/tools/generate-md-icons.py''" "''md''" "[]"]
  by (simp add: launches_all_exit ICONS_def SYMBOLS_def)

subsection \<open>The paths given to the tools\<close>

text \<open>
  Claim C4. Every input path the script passes to a tool is prefixed by the base directory,
  and every output path is \<open>res/images/md-icons/<name>.png\<close> for a name of the icon catalog
  or \<open>res/images/md-symbols/<name>.png\<close> for a name of the symbol catalog; nothing else is
  given as an output, and no file is made for a name in neither catalog. In every run,
  complete or cut short, a command is one of the two \<open>mkdir -p\<close> calls on the output
  directories, or a \<open>convert\<close> call whose only paths are a source under the base directory
  and a target, or a \<open>mogrify -strip\<close> call on a target; and the target is such an output
  file.
\<close>

theorem paths_stay_in_bounds:
  assumes "argv = prog # base # rest"
  shows "\<forall>c \<in> set (commands (snd (main w argv))).
     c \<in> {[''mkdir'', ''-p'', ''res/images/md-icons''],
           [''mkdir'', ''-p'', ''res/images/md-symbols'']}
   \<or> (c = [''convert'', source_arg c, ''-density'', ''576'', ''-background'', ''none'',
             ''-negate'', target_arg c] \<and> prefix base (source_arg c)
       \<or> c = [''mogrify'', ''-strip'', target_arg c])
     \<and> target_arg c \<in> (\<lambda>name. ''res/images/md-icons/'' @ name @ ''.png'')
                          ` set (concat (map snd ICONS))
                      \<union> (\<lambda>name. ''res/images/md-symbols/'' @ name @ ''.png'') ` set SYMBOLS"
proof
  fix c
  assume c: "c \<in> set (commands (snd (main w argv)))"
  define form where "form \<longleftrightarrow>
     (c = [''convert'', source_arg c, ''-density'', ''576'', ''-background'', ''none'',
             ''-negate'', target_arg c] \<and> prefix base (source_arg c)
       \<or> c = [''mogrify'', ''-strip'', target_arg c])"
  define icon_files where
    "icon_files = (\<lambda>name. ''res/images/md-icons/'' @ name @ ''.png'')
                          ` set (concat (map snd ICONS))"
  define symbol_files where
    "symbol_files = (\<lambda>name. ''res/images/md-symbols/'' @ name @ ''.png'') ` set SYMBOLS"
  define dirs where "dirs = {[''mkdir'', ''-p'', ''res/images/md-icons''],
           [''mkdir'', ''-p'', ''res/images/md-symbols'']}"
  obtain k where "commands (snd (main w argv)) = take k (plan base)"
    unfolding assms using commands_main_prefix by blast
  with c have "c \<in> set (take k (plan base))" by (simp only:)
  then have "c \<in> set (plan base)" by (rule in_set_takeD)
  then consider
      (dirs) "c \<in> dirs"
    | (icon) grp name where "name \<in> set (concat (map snd ICONS))"
        "c \<in> set (icon_plan base grp name)"
    | (symbol) name where "name \<in> set SYMBOLS" "c \<in> set (symbol_plan base name)"
    unfolding dirs_def using plan_cases by blast
  then have "c \<in> dirs \<or> form \<and> target_arg c \<in> icon_files \<union> symbol_files"
  proof cases
    case dirs
    then show ?thesis by (rule disjI1)
  next
    case icon
    from icon_plan_paths[OF icon(2)]
    have f: form and t: "target_arg c = ''res/images/md-icons/'' @ name @ ''.png''"
      unfolding form_def by (rule conjunct1, rule conjunct2)
    from t icon(1) have "target_arg c \<in> icon_files"
      unfolding icon_files_def by (rule image_eqI)
    then have "target_arg c \<in> icon_files \<union> symbol_files" by (rule UnI1)
    with f show ?thesis by (intro disjI2 conjI)
  next
    case symbol
    from symbol_plan_paths[OF symbol(2)]
    have f: form and t: "target_arg c = ''res/images/md-symbols/'' @ name @ ''.png''"
      unfolding form_def by (rule conjunct1, rule conjunct2)
    from t symbol(1) have "target_arg c \<in> symbol_files"
      unfolding symbol_files_def by (rule image_eqI)
    then have "target_arg c \<in> icon_files \<union> symbol_files" by (rule UnI2)
    with f show ?thesis by (intro disjI2 conjI)
  qed
  then show "c \<in> {[''mkdir'', ''-p'', ''res/images/md-icons''],
           [''mkdir'', ''-p'', ''res/images/md-symbols'']}
   \<or> (c = [''convert'', source_arg c, ''-density'', ''576'', ''-background'', ''none'',
             ''-negate'', target_arg c] \<and> prefix base (source_arg c)
       \<or> c = [''mogrify'', ''-strip'', target_arg c])
     \<and> target_arg c \<in> (\<lambda>name. ''res/images/md-icons/'' @ name @ ''.png'')
                          ` set (concat (map snd ICONS))
                      \<union> (\<lambda>name. ''res/images/md-symbols/'' @ name @ ''.png'') ` set SYMBOLS"
    unfolding dirs_def form_def icon_files_def symbol_files_def .
qed

theorem paths_stay_in_bounds_witness:
  "[''mogrify'', ''-strip'', ''res/images/md-symbols/piano.png'']
     \<in> set (commands (snd (main (all_exit 0) [''res/tools/generate-md-icons.py'', ''md''])))
   \<and> target_arg [''mogrify'', ''-strip'', ''res/images/md-symbols/piano.png'']
     \<in> (\<lambda>name. ''res/images/md-icons/'' @ name @ ''.png'') ` set (concat (map snd ICONS))
       \<union> (\<lambda>name. ''res/images/md-symbols/'' @ name @ ''.png'') ` set SYMBOLS"
proof -
  have pick: "P \<or> Q \<and> R \<Longrightarrow> \<not> P \<Longrightarrow> R" for P Q R by blast
  have m: "[''mogrify'', ''-strip'', ''res/images/md-symbols/piano.png'']
     \<in> set (commands (snd (main (all_exit 0) [''res/tools/generate-md-icons.py'', ''md''])))"
    unfolding commands_main_launches[OF launches_all_exit] plan_unfolded
    by (simp add: icon_plan_def symbol_plan_def)
  have n: "[''mogrify'', ''-strip'', ''res/images/md-symbols/piano.png'']
      \<notin> {[''mkdir'', ''-p'', ''res/images/md-icons''],
          [''mkdir'', ''-p'', ''res/images/md-symbols'']}"
    by simp
  note d = bspec [OF paths_stay_in_bounds [OF refl, where w = "all_exit 0"] m]
  from pick [OF d n] m show ?thesis by (intro conjI)
qed

subsection \<open>A missing argument\<close>

text \<open>
  Claim C6. If the command-line argument is missing, the run fails where the argument is
  read (\<open>sys.argv[1]\<close> raises \<open>IndexError\<close>), before anything is printed, before an output
  directory is made and before a tool is called: the run has no event at all.
\<close>

theorem missing_argument_fails_first:
  "length argv \<le> 1 \<Longrightarrow> main w argv = (Inl IndexError, [])"
  by (simp add: main_def script_no_argument)

theorem missing_argument_fails_first_witness:
  "length [''res/tools/generate-md-icons.py''] \<le> 1
   \<and> main (all_exit 0) [''res/tools/generate-md-icons.py''] = (Inl IndexError, [])"
  using missing_argument_fails_first [of "[''res/tools/generate-md-icons.py'']" "all_exit 0"]
  by simp

subsection \<open>The order of the calls\<close>

text \<open>
  Claim C8. Execution is sequential in catalog order: for every entry the rasterizer call
  and then the metadata-strip call on that entry's output file, entry after entry, and
  every icon before any symbol. \<open>subprocess.run\<close> returns when the process has exited, so
  the order in which the commands are started is the order in which they complete; when
  every tool starts, the programs and output files of a run, in order, are the two
  \<open>mkdir\<close> calls and then \<open>convert\<close>, \<open>mogrify\<close> for each entry.
\<close>

theorem strictly_sequential:
  assumes "launches w" and "argv = prog # base # rest"
  shows "map (\<lambda>c. (program c, target_arg c)) (commands (snd (main w argv)))
         = [(''mkdir'', ''res/images/md-icons''), (''mkdir'', ''res/images/md-symbols'')]
           @ concat [[(''convert'', ''res/images/md-icons/'' @ name @ ''.png''),
                      (''mogrify'', ''res/images/md-icons/'' @ name @ ''.png'')].
                     (grp, icons) \<leftarrow> ICONS, name \<leftarrow> icons]
           @ concat [[(''convert'', ''res/images/md-symbols/'' @ name @ ''.png''),
                      (''mogrify'', ''res/images/md-symbols/'' @ name @ ''.png'')].
                     name \<leftarrow> SYMBOLS]"
  unfolding assms(2) commands_main_launches[OF assms(1)] plan_unfolded
  by (simp add: icon_plan_def symbol_plan_def target_arg_def ICONS_def SYMBOLS_def)

theorem strictly_sequential_witness:
  "launches (all_exit 0)
   \<and> take 6 (map (\<lambda>c. (program c, target_arg c))
         (commands (snd (main (all_exit 0) [''res/tools/generate-md-icons.py'', ''md'']))))
     = [(''mkdir'', ''res/images/md-icons''), (''mkdir'', ''res/images/md-symbols''),
        (''convert'', ''res/images/md-icons/play_arrow.png''),
        (''mogrify'', ''res/images/md-icons/play_arrow.png''),
        (''convert'', ''res/images/md-icons/pause.png''),
        (''mogrify'', ''res/images/md-icons/pause.png'')]"
  using strictly_sequential [of "all_exit 0" "[''res/tools/generate-md-icons.py'', ''md'']"
      "''res/tools/generate-md-icons.py''" "''md''" "[]"]
  by (simp add: launches_all_exit ICONS_def SYMBOLS_def)


subsection \<open>Exit statuses and failures to start\<close>

text \<open>
  Claim C5 says that the script never inspects the exit status or output of a process, that
  for every catalog entry both calls are issued whether or not an earlier call failed, and
  that a failing call does not stop the remaining entries. This holds for a process that
  runs and fails. It does not hold for a tool that cannot be started: \<open>subprocess.run\<close>
  then raises, the script catches nothing, and the run ends at that call. With \<open>convert\<close>
  not installed the run ends at the first rasterizer call, after the two \<open>mkdir\<close> calls: no
  metadata-strip call is issued and no other entry is processed.
\<close>

theorem launch_failure_stops_the_run:
  "main convert_missing [''res/tools/generate-md-icons.py'', ''md'']
   = (Inl (OSError [''convert'', ''md/src/av/play_arrow/materialicons/24px.svg'',
                    ''-density'', ''576'', ''-background'', ''none'', ''-negate'',
                    ''res/images/md-icons/play_arrow.png'']),
      [Print ''Reading material design icons/symbols from base directory md'',
       Run [''mkdir'', ''-p'', ''res/images/md-icons''],
       Run [''mkdir'', ''-p'', ''res/images/md-symbols'']])
   \<and> [''mogrify'', ''-strip'', ''res/images/md-icons/play_arrow.png'']
       \<notin> set (commands (snd (main convert_missing
                [''res/tools/generate-md-icons.py'', ''md''])))"
proof -
  have run: "main convert_missing [''res/tools/generate-md-icons.py'', ''md'']
   = (Inl (OSError [''convert'', ''md/src/av/play_arrow/materialicons/24px.svg'',
                    ''-density'', ''576'', ''-background'', ''none'', ''-negate'',
                    ''res/images/md-icons/play_arrow.png'']),
      [Print ''Reading material design icons/symbols from base directory md'',
       Run [''mkdir'', ''-p'', ''res/images/md-icons''],
       Run [''mkdir'', ''-p'', ''res/images/md-symbols'']])"
    unfolding main_def script_plan plan_unfolded
    by (simp add: convert_missing_def icon_plan_def banner_def)
  show ?thesis unfolding run by (simp add: commands_def)
qed

text \<open>
  Claim C5, amended. When every tool can be started, the run does not depend on the exit
  statuses: two worlds that differ in the statuses (and in anything else they decide from
  the past) see the same events, the run ends normally, and for every catalog entry both
  the rasterizer call and the metadata-strip call on its output file are issued.
\<close>

theorem exit_status_ignored:
  assumes "launches w" and "launches w'" and "argv = prog # base # rest"
  shows "main w argv = main w' argv \<and> fst (main w argv) = Inr ()
    \<and> (\<forall>name \<in> set (concat (map snd ICONS)).
          {(''convert'', ''res/images/md-icons/'' @ name @ ''.png''),
           (''mogrify'', ''res/images/md-icons/'' @ name @ ''.png'')}
          \<subseteq> set (map (\<lambda>c. (program c, target_arg c)) (commands (snd (main w argv)))))
    \<and> (\<forall>name \<in> set SYMBOLS.
          {(''convert'', ''res/images/md-symbols/'' @ name @ ''.png''),
           (''mogrify'', ''res/images/md-symbols/'' @ name @ ''.png'')}
          \<subseteq> set (map (\<lambda>c. (program c, target_arg c)) (commands (snd (main w argv)))))"
proof -
  have c: "commands (snd (main w argv)) = plan base"
    unfolding assms(3) by (rule commands_main_launches[OF assms(1)])
  have same: "main w argv = main w' argv \<and> fst (main w argv) = Inr ()"
    by (simp add: assms(3) main_launches[OF assms(1)] main_launches[OF assms(2)])
  have issued: "(\<forall>name \<in> set (concat (map snd ICONS)).
          {(''convert'', ''res/images/md-icons/'' @ name @ ''.png''),
           (''mogrify'', ''res/images/md-icons/'' @ name @ ''.png'')}
          \<subseteq> set (map (\<lambda>c. (program c, target_arg c)) (commands (snd (main w argv)))))
    \<and> (\<forall>name \<in> set SYMBOLS.
          {(''convert'', ''res/images/md-symbols/'' @ name @ ''.png''),
           (''mogrify'', ''res/images/md-symbols/'' @ name @ ''.png'')}
          \<subseteq> set (map (\<lambda>c. (program c, target_arg c)) (commands (snd (main w argv)))))"
    unfolding c plan_unfolded
    by (simp add: icon_plan_def symbol_plan_def target_arg_def ICONS_def SYMBOLS_def)
  from same issued show ?thesis by blast
qed

theorem exit_status_ignored_witness:
  "launches (all_exit 1) \<and> launches (all_exit 0)
   \<and> main (all_exit 1) [''res/tools/generate-md-icons.py'', ''md'']
     = main (all_exit 0) [''res/tools/generate-md-icons.py'', ''md'']
   \<and> fst (main (all_exit 1) [''res/tools/generate-md-icons.py'', ''md'']) = Inr ()"
proof -
  have "main (all_exit 1) [''res/tools/generate-md-icons.py'', ''md'']
     = main (all_exit 0) [''res/tools/generate-md-icons.py'', ''md'']
   \<and> fst (main (all_exit 1) [''res/tools/generate-md-icons.py'', ''md'']) = Inr ()"
    using exit_status_ignored [of "all_exit 1" "all_exit 0"
      "[''res/tools/generate-md-icons.py'', ''md'']" "''res/tools/generate-md-icons.py''"
      "''md''" "[]"] launches_all_exit
    by blast
  with launches_all_exit [of 1] launches_all_exit [of 0] show ?thesis by blast
qed

subsection \<open>The output directories\<close>

text \<open>
  Claim C7. Before any conversion the two output directories are made with \<open>mkdir -p\<close>
  (the recursive form, which succeeds on an existing directory), and this step raises no
  error when a directory exists already. Whenever \<open>mkdir\<close> can be started, whatever its
  exit status, the step ends normally having issued exactly the two commands, and they are
  the first two commands of a run, so every \<open>convert\<close> and \<open>mogrify\<close> call comes after
  them.
\<close>

theorem output_directories_first:
  assumes "\<forall>tr a. w tr (''mkdir'' # a) \<noteq> NotLaunched" and "argv = prog # base # rest"
  shows "make_output_dirs w tr
           = (Inr (), tr @ [Run [''mkdir'', ''-p'', ''res/images/md-icons''],
                            Run [''mkdir'', ''-p'', ''res/images/md-symbols'']])
       \<and> take 2 (commands (snd (main w argv)))
           = [[''mkdir'', ''-p'', ''res/images/md-icons''],
              [''mkdir'', ''-p'', ''res/images/md-symbols'']]"
proof -
  have step: "run_plan w ((''mkdir'' # a) # cs) t = run_plan w cs (t @ [Run (''mkdir'' # a)])"
    for a cs t
    using assms(1) by (cases "w t (''mkdir'' # a)") auto
  have dirs: "make_output_dirs w tr
           = (Inr (), tr @ [Run [''mkdir'', ''-p'', ''res/images/md-icons''],
                            Run [''mkdir'', ''-p'', ''res/images/md-symbols'']])"
    by (simp add: make_output_dirs_plan step del: run_plan.simps(2))
  define cs where "cs = drop 2 (plan base)"
  have p: "plan base = [''mkdir'', ''-p'', ''res/images/md-icons'']
      # [''mkdir'', ''-p'', ''res/images/md-symbols''] # cs"
    by (simp add: cs_def plan_def)
  obtain k where "snd (run_plan w cs [Print (banner base),
      Run [''mkdir'', ''-p'', ''res/images/md-icons''],
      Run [''mkdir'', ''-p'', ''res/images/md-symbols'']])
    = [Print (banner base), Run [''mkdir'', ''-p'', ''res/images/md-icons''],
      Run [''mkdir'', ''-p'', ''res/images/md-symbols'']] @ map Run (take k cs)"
    using run_plan_prefix by blast
  then have "snd (main w argv) = Print (banner base)
      # map Run ([''mkdir'', ''-p'', ''res/images/md-icons'']
         # [''mkdir'', ''-p'', ''res/images/md-symbols''] # take k cs)"
    by (simp add: assms(2) main_def script_plan p step del: run_plan.simps(2))
  then have "commands (snd (main w argv)) = [''mkdir'', ''-p'', ''res/images/md-icons'']
         # [''mkdir'', ''-p'', ''res/images/md-symbols''] # take k cs"
    by (simp only: commands_map_Run)
  with dirs show ?thesis by simp
qed

theorem output_directories_first_witness:
  "(\<forall>tr a. convert_missing tr (''mkdir'' # a) \<noteq> NotLaunched)
   \<and> make_output_dirs convert_missing []
       = (Inr (), [Run [''mkdir'', ''-p'', ''res/images/md-icons''],
                   Run [''mkdir'', ''-p'', ''res/images/md-symbols'']])
   \<and> take 2 (commands (snd (main convert_missing [''res/tools/generate-md-icons.py'', ''md''])))
       = [[''mkdir'', ''-p'', ''res/images/md-icons''],
          [''mkdir'', ''-p'', ''res/images/md-symbols'']]"
  using output_directories_first [of convert_missing "[''res/tools/generate-md-icons.py'', ''md'']"
      "''res/tools/generate-md-icons.py''" "''md''" "[]" "[]"]
  by (simp add: convert_missing_def)

subsection \<open>Running the script again\<close>

text \<open>
  Claim C9. Running the conversion twice with the same argument issues the same sequence
  of commands both times (directory preparation, then the same conversions in the same
  order with the same output paths), so the second run overwrites the outputs of the first
  without an error. The second run meets the world as the first run left it. When every
  tool starts, both runs end normally, the commands of the second run are those of the
  first, and they are the two \<open>mkdir -p\<close> calls followed, for every icon and then every
  symbol in catalog order, by the \<open>convert\<close> call and the \<open>mogrify\<close> call that write the
  entry's output file.
\<close>

theorem rerun_same_commands:
  assumes "launches w" and "argv = prog # base # rest"
  shows "main (after (snd (main w argv)) w) argv = main w argv
    \<and> fst (main w argv) = Inr ()
    \<and> fst (main (after (snd (main w argv)) w) argv) = Inr ()
    \<and> commands (snd (main (after (snd (main w argv)) w) argv)) = commands (snd (main w argv))
    \<and> commands (snd (main w argv))
      = [[''mkdir'', ''-p'', ''res/images/md-icons''],
         [''mkdir'', ''-p'', ''res/images/md-symbols'']]
        @ concat [[[''convert'',
                    base @ ''/src/'' @ grp @ ''/'' @ name @ ''/materialicons/24px.svg'',
                    ''-density'', ''576'', ''-background'', ''none'', ''-negate'',
                    ''res/images/md-icons/'' @ name @ ''.png''],
                   [''mogrify'', ''-strip'', ''res/images/md-icons/'' @ name @ ''.png'']].
                  (grp, icons) \<leftarrow> ICONS, name \<leftarrow> icons]
        @ concat [[[''convert'',
                    base @ ''/symbols/web/'' @ name @ ''/materialsymbolssharp/'' @ name
                      @ ''_wght100_24px.svg'',
                    ''-density'', ''576'', ''-background'', ''none'', ''-negate'',
                    ''res/images/md-symbols/'' @ name @ ''.png''],
                   [''mogrify'', ''-strip'', ''res/images/md-symbols/'' @ name @ ''.png'']].
                  name \<leftarrow> SYMBOLS]"
proof -
  have first: "main w argv = (Inr (), Print (banner base) # map Run (plan base))"
    unfolding assms(2) by (rule main_launches[OF assms(1)])
  have second: "main (after (snd (main w argv)) w) argv
      = (Inr (), Print (banner base) # map Run (plan base))"
    unfolding assms(2) by (rule main_launches[OF launches_after[OF assms(1)]])
  have same: "main (after (snd (main w argv)) w) argv = main w argv"
    by (rule trans [OF second first [symmetric]])
  have ok1: "fst (main w argv) = Inr ()" by (simp only: first fst_conv)
  have ok2: "fst (main (after (snd (main w argv)) w) argv) = Inr ()"
    by (simp only: second fst_conv)
  have cmds: "commands (snd (main (after (snd (main w argv)) w) argv))
      = commands (snd (main w argv))"
    by (simp only: same)
  have c: "commands (snd (main w argv)) = plan base"
    by (simp only: first snd_conv commands_map_Run)
  have listed: "commands (snd (main w argv))
      = [[''mkdir'', ''-p'', ''res/images/md-icons''],
         [''mkdir'', ''-p'', ''res/images/md-symbols'']]
        @ concat [[[''convert'',
                    base @ ''/src/'' @ grp @ ''/'' @ name @ ''/materialicons/24px.svg'',
                    ''-density'', ''576'', ''-background'', ''none'', ''-negate'',
                    ''res/images/md-icons/'' @ name @ ''.png''],
                   [''mogrify'', ''-strip'', ''res/images/md-icons/'' @ name @ ''.png'']].
                  (grp, icons) \<leftarrow> ICONS, name \<leftarrow> icons]
        @ concat [[[''convert'',
                    base @ ''/symbols/web/'' @ name @ ''/materialsymbolssharp/'' @ name
                      @ ''_wght100_24px.svg'',
                    ''-density'', ''576'', ''-background'', ''none'', ''-negate'',
                    ''res/images/md-symbols/'' @ name @ ''.png''],
                   [''mogrify'', ''-strip'', ''res/images/md-symbols/'' @ name @ ''.png'']].
                  name \<leftarrow> SYMBOLS]"
    unfolding c plan_unfolded
    by (simp add: icon_plan_def symbol_plan_def ICONS_def SYMBOLS_def)
  from same ok1 ok2 cmds listed show ?thesis by (intro conjI)
qed

theorem rerun_same_commands_witness:
  "launches (all_exit 0)
   \<and> main (after (snd (main (all_exit 0) [''res/tools/generate-md-icons.py'', ''md'']))
             (all_exit 0)) [''res/tools/generate-md-icons.py'', ''md'']
     = main (all_exit 0) [''res/tools/generate-md-icons.py'', ''md'']
   \<and> fst (main (all_exit 0) [''res/tools/generate-md-icons.py'', ''md'']) = Inr ()
   \<and> take 4 (commands (snd (main (after (snd (main (all_exit 0)
            [''res/tools/generate-md-icons.py'', ''md''])) (all_exit 0))
          [''res/tools/generate-md-icons.py'', ''md''])))
     = [[''mkdir'', ''-p'', ''res/images/md-icons''],
        [''mkdir'', ''-p'', ''res/images/md-symbols''],
        [''convert'', ''md/src/av/play_arrow/materialicons/24px.svg'',
         ''-density'', ''576'', ''-background'', ''none'', ''-negate'',
         ''res/images/md-icons/play_arrow.png''],
        [''mogrify'', ''-strip'', ''res/images/md-icons/play_arrow.png'']]"
proof -
  note t = rerun_same_commands [OF launches_all_exit [of 0] refl, where
      prog = "''res/tools/generate-md-icons.py''" and base = "''md''" and rest = "[]"]
  have same: "main (after (snd (main (all_exit 0) [''res/tools/generate-md-icons.py'', ''md'']))
             (all_exit 0)) [''res/tools/generate-md-icons.py'', ''md'']
     = main (all_exit 0) [''res/tools/generate-md-icons.py'', ''md'']"
    using t by (rule conjunct1)
  have ok: "fst (main (all_exit 0) [''res/tools/generate-md-icons.py'', ''md'']) = Inr ()"
    using t by (elim conjE)
  have again: "commands (snd (main (after (snd (main (all_exit 0)
            [''res/tools/generate-md-icons.py'', ''md''])) (all_exit 0))
          [''res/tools/generate-md-icons.py'', ''md'']))
      = commands (snd (main (all_exit 0) [''res/tools/generate-md-icons.py'', ''md'']))"
    using t by (elim conjE)
  have listed: "take 4 (commands (snd (main (all_exit 0)
        [''res/tools/generate-md-icons.py'', ''md''])))
     = [[''mkdir'', ''-p'', ''res/images/md-icons''],
        [''mkdir'', ''-p'', ''res/images/md-symbols''],
        [''convert'', ''md/src/av/play_arrow/materialicons/24px.svg'',
         ''-density'', ''576'', ''-background'', ''none'', ''-negate'',
         ''res/images/md-icons/play_arrow.png''],
        [''mogrify'', ''-strip'', ''res/images/md-icons/play_arrow.png'']]"
    using t by (elim conjE) (simp add: ICONS_def SYMBOLS_def)
  from launches_all_exit [of 0] same ok listed show ?thesis
    unfolding again by (intro conjI)
qed

subsection \<open>Distinct output files\<close>

text \<open>
  Claim C10. The output paths of one run are pairwise distinct: the icon names are unique
  across the groups, the symbol names are unique, and the three names in both catalogs
  (\<open>drag_indicator\<close>, \<open>play_arrow\<close>, \<open>stop\<close>) are written to different directories. This
  holds of every run, whatever the world and the arguments.
\<close>

theorem outputs_pairwise_distinct:
  "distinct (map target_arg (calls_of ''convert'' (snd (main w argv))))
   \<and> distinct (concat (map snd ICONS)) \<and> distinct SYMBOLS
   \<and> set (concat (map snd ICONS)) \<inter> set SYMBOLS = {''drag_indicator'', ''play_arrow'', ''stop''}"
proof -
  have "distinct (map target_arg (calls_of ''convert'' (snd (main w argv))))"
  proof (cases "length argv \<le> 1")
    case True
    then show ?thesis
      by (simp add: main_def script_no_argument calls_of_def commands_def)
  next
    case False
    then obtain prog base rest where a: "argv = prog # base # rest"
      by (cases argv; cases "tl argv") auto
    obtain k where "commands (snd (main w argv)) = take k (plan base)"
      unfolding a using commands_main_prefix by blast
    then have "prefix (map target_arg (calls_of ''convert'' (snd (main w argv))))
        (map target_arg [c \<leftarrow> plan base. program c = ''convert''])"
      by (simp add: calls_of_def map_mono_prefix filter_mono_prefix take_is_prefix)
    then obtain zs where "map target_arg [c \<leftarrow> plan base. program c = ''convert'']
        = map target_arg (calls_of ''convert'' (snd (main w argv))) @ zs"
      by (auto simp: prefix_def)
    with plan_targets_distinct[of base] show ?thesis by (metis distinct_append)
  qed
  moreover have "distinct (concat (map snd ICONS)) \<and> distinct SYMBOLS
   \<and> set (concat (map snd ICONS)) \<inter> set SYMBOLS = {''drag_indicator'', ''play_arrow'', ''stop''}"
    by (auto simp: ICONS_def SYMBOLS_def)
  ultimately show ?thesis by blast
qed

theorem outputs_pairwise_distinct_witness:
  "distinct (map target_arg (calls_of ''convert''
      (snd (main (all_exit 0) [''res/tools/generate-md-icons.py'', ''md'']))))
   \<and> length (calls_of ''convert''
      (snd (main (all_exit 0) [''res/tools/generate-md-icons.py'', ''md'']))) = 12"
  using outputs_pairwise_distinct [of "all_exit 0" "[''res/tools/generate-md-icons.py'', ''md'']"]
  by (simp add: calls_of_def commands_main_launches launches_all_exit plan_unfolded
      icon_plan_def symbol_plan_def)

end
